theory Spec2Isabelle
  imports Main "HOL-Library.AList" "HOL-Library.Char_ord" "HOL-Library.List_Lexorder"
begin

section \<open>Strings and POSIX paths\<close>

text \<open>
  The pipeline of \<open>Function\<close> (the component's constructor) manipulates handler
  references and file names with JavaScript string operations and with Node's
  \<open>path\<close> module. This section embeds the operations the constructor calls.
  JavaScript strings are modelled as \<^typ>\<open>string\<close>.
\<close>

text \<open>\<open>Array.prototype.join(sep)\<close> on an array of strings.\<close>

fun js_join :: "string \<Rightarrow> string list \<Rightarrow> string" where
  "js_join sep [] = []"
| "js_join sep [x] = x"
| "js_join sep (x # y # ys) = x @ sep @ js_join sep (y # ys)"

text \<open>\<open>String.prototype.slice(a, b)\<close> for indices \<open>0 \<le> a\<close>, \<open>0 \<le> b\<close>
  (the only way the path functions below call it); \<open>b < a\<close> gives the empty string.\<close>

definition js_slice :: "string \<Rightarrow> int \<Rightarrow> int \<Rightarrow> string" where
  "js_slice s a b = take (nat b - nat a) (drop (nat a) s)"

text \<open>\<open>replace\<close> with the pattern "a dot at the start of the string" and the empty
  replacement: one leading dot is removed, if there is one.\<close>

fun strip_leading_dot :: "string \<Rightarrow> string" where
  "strip_leading_dot [] = []"
| "strip_leading_dot (c # cs) = (if c = CHR ''.'' then cs else c # cs)"

text \<open>\<open>s.startsWith(p)\<close>.\<close>

fun startsWith :: "string \<Rightarrow> string \<Rightarrow> bool" where
  "startsWith s [] = True"
| "startsWith [] (p # ps) = False"
| "startsWith (c # cs) (p # ps) = (c = p \<and> startsWith cs ps)"

text \<open>Splitting at every occurrence of a separator: \<open>a//b\<close> has the three
  segments \<open>a\<close>, the empty string and \<open>b\<close>.\<close>

fun split_on :: "char \<Rightarrow> string \<Rightarrow> string list" where
  "split_on c [] = [[]]"
| "split_on c (x # xs) =
     (if x = c then [] # split_on c xs
      else (case split_on c xs of
              [] \<Rightarrow> [[x]]
            | y # ys \<Rightarrow> (x # y) # ys))"

subsection \<open>\<open>path.posix.parse\<close>\<close>

text \<open>
  Node's \<open>path.posix.parse\<close> scans the path from its last character down to
  \<open>start\<close> (1 for an absolute path, 0 otherwise), keeping five variables. The
  record holds them under the library's names (\<open>end\<close> is \<open>endIdx\<close> here); \<open>-1\<close>
  is the library's "not seen yet".
\<close>

record parse_scan =
  startDot :: int
  startPart :: int
  endIdx :: int
  matchedSlash :: bool
  preDotState :: int

record parsed_path =
  p_root :: string
  p_dir :: string
  p_base :: string
  p_ext :: string
  p_name :: string

definition scan_char :: "char \<Rightarrow> int \<Rightarrow> parse_scan \<Rightarrow> parse_scan" where
  "scan_char code i st =
     (let st1 = (if endIdx st = -1
                 then st\<lparr>matchedSlash := False, endIdx := i + 1\<rparr> else st)
      in if code = CHR ''.'' then
           (if startDot st1 = -1 then st1\<lparr>startDot := i\<rparr>
            else if preDotState st1 \<noteq> 1 then st1\<lparr>preDotState := 1\<rparr>
            else st1)
         else if startDot st1 \<noteq> -1 then st1\<lparr>preDotState := -1\<rparr>
         else st1)"

text \<open>The loop \<open>for (; i >= start; --i)\<close>: with \<open>k\<close> iterations left the index is
  \<open>i = start + k - 1\<close>. A separator met after a non-separator ends the loop.\<close>

fun parse_loop :: "string \<Rightarrow> nat \<Rightarrow> nat \<Rightarrow> parse_scan \<Rightarrow> parse_scan" where
  "parse_loop path start 0 st = st"
| "parse_loop path start (Suc k) st =
     (let i = start + k; code = path ! i in
      if code = CHR ''/'' then
        (if \<not> matchedSlash st then st\<lparr>startPart := int i + 1\<rparr>
         else parse_loop path start k st)
      else parse_loop path start k (scan_char code (int i) st))"

definition posix_parse :: "string \<Rightarrow> parsed_path" where
  "posix_parse path =
     (if path = [] then \<lparr>p_root = [], p_dir = [], p_base = [], p_ext = [], p_name = []\<rparr>
      else
        let isAbsolute = (hd path = CHR ''/'');
            start = (if isAbsolute then 1 else 0);
            st = parse_loop path start (length path - start)
                   \<lparr>startDot = -1, startPart = 0, endIdx = -1,
                    matchedSlash = True, preDotState = 0\<rparr>;
            from = (if startPart st = 0 \<and> isAbsolute then 1 else startPart st);
            noExt = (startDot st = -1 \<or> preDotState st = 0 \<or>
                     (preDotState st = 1 \<and> startDot st = endIdx st - 1 \<and>
                      startDot st = startPart st + 1));
            whole = js_slice path from (endIdx st)
        in \<lparr>p_root = (if isAbsolute then ''/'' else []),
            p_dir = (if startPart st > 0 then js_slice path 0 (startPart st - 1)
                     else if isAbsolute then ''/'' else []),
            p_base = (if endIdx st = -1 then [] else whole),
            p_ext = (if endIdx st = -1 \<or> noExt then []
                     else js_slice path (startDot st) (endIdx st)),
            p_name = (if endIdx st = -1 then []
                      else if noExt then whole
                      else js_slice path from (startDot st))\<rparr>)"

subsection \<open>\<open>path.posix.normalize\<close>, \<open>join\<close>, \<open>resolve\<close>, \<open>dirname\<close>\<close>

text \<open>
  \<open>normalizeString\<close> of Node's path module walks the segments between separators:
  an empty segment and \<open>.\<close> are dropped; \<open>..\<close> removes the segment before it,
  unless there is none or it is itself \<open>..\<close>, where \<open>..\<close> is kept if the path may
  climb above its root (\<open>allowAboveRoot\<close>) and dropped otherwise. The accumulator
  holds the segments kept so far, last one first.
\<close>

fun normalize_segs :: "bool \<Rightarrow> string list \<Rightarrow> string list \<Rightarrow> string list" where
  "normalize_segs allowAboveRoot [] acc = rev acc"
| "normalize_segs allowAboveRoot (s # ss) acc =
     (if s = [] \<or> s = ''.'' then normalize_segs allowAboveRoot ss acc
      else if s = ''..'' then
        (case acc of
           [] \<Rightarrow> normalize_segs allowAboveRoot ss (if allowAboveRoot then [''..''] else [])
         | t # ts \<Rightarrow>
             if t \<noteq> ''..'' then normalize_segs allowAboveRoot ss ts
             else normalize_segs allowAboveRoot ss
                    (if allowAboveRoot then ''..'' # acc else acc))
      else normalize_segs allowAboveRoot ss (s # acc))"

definition normalizeString :: "string \<Rightarrow> bool \<Rightarrow> string" where
  "normalizeString path allowAboveRoot =
     js_join ''/'' (normalize_segs allowAboveRoot (split_on CHR ''/'' path) [])"

definition posix_normalize :: "string \<Rightarrow> string" where
  "posix_normalize path =
     (if path = [] then ''.''
      else
        let isAbsolute = (hd path = CHR ''/'');
            trailingSeparator = (last path = CHR ''/'');
            p = normalizeString path (\<not> isAbsolute)
        in if p = [] then (if isAbsolute then ''/'' else if trailingSeparator then ''./'' else ''.'')
           else (if isAbsolute then ''/'' else []) @ p @ (if trailingSeparator then ''/'' else []))"

text \<open>\<open>path.posix.join(...args)\<close>: the non-empty arguments, joined by \<open>/\<close> and
  normalised; \<open>.\<close> when there is none.\<close>

definition posix_join :: "string list \<Rightarrow> string" where
  "posix_join args =
     (let parts = filter (\<lambda>a. a \<noteq> []) args
      in if parts = [] then ''.'' else posix_normalize (js_join ''/'' parts))"

text \<open>\<open>path.posix.resolve(...args)\<close>: arguments are prepended from the right until
  one is absolute; the working directory \<open>cwd\<close> (\<open>process.cwd()\<close>) is used when
  none is.\<close>

fun resolve_from :: "string list \<Rightarrow> string \<Rightarrow> string" where
  "resolve_from [] resolvedPath = resolvedPath"
| "resolve_from (p # ps) resolvedPath =
     (if p = [] then resolve_from ps resolvedPath
      else if hd p = CHR ''/'' then p @ ''/'' @ resolvedPath
      else resolve_from ps (p @ ''/'' @ resolvedPath))"

definition posix_resolve :: "string \<Rightarrow> string list \<Rightarrow> string" where
  "posix_resolve cwd args =
     (let resolvedPath = resolve_from (rev args @ [cwd]) [];
          resolvedAbsolute = (resolvedPath \<noteq> [] \<and> hd resolvedPath = CHR ''/'');
          p = normalizeString resolvedPath (\<not> resolvedAbsolute)
      in if resolvedAbsolute then ''/'' @ p
         else if p \<noteq> [] then p else ''.'')"

text \<open>\<open>path.posix.dirname\<close>: trailing separators are skipped, then everything up
  to the last separator at an index \<open>\<ge> 1\<close> is the directory (\<open>matched\<close> is the
  library's \<open>matchedSlash\<close>).\<close>

fun dirname_end :: "string \<Rightarrow> nat \<Rightarrow> bool \<Rightarrow> int" where
  "dirname_end path 0 matched = -1"
| "dirname_end path (Suc k) matched =
     (let i = Suc k in
      if path ! i = CHR ''/'' then
        (if \<not> matched then int i else dirname_end path k matched)
      else dirname_end path k False)"

definition posix_dirname :: "string \<Rightarrow> string" where
  "posix_dirname path =
     (if path = [] then ''.''
      else
        let hasRoot = (hd path = CHR ''/'');
            e = dirname_end path (length path - 1) True
        in if e = -1 then (if hasRoot then ''/'' else ''.'')
           else if hasRoot \<and> e = 1 then ''//''
           else js_slice path 0 e)"

section \<open>The local filesystem\<close>

text \<open>
  A file holds bytes, or a zip archive. An archive is kept as the sequence of its
  entries (name, kind, date, mode, data) in the order they were appended: the
  container's bytes are a function of that sequence, and two different sequences
  give different bytes.
\<close>

datatype content = Bytes string | Archive "zip_entry list"
and zip_entry =
  ZipEntry (e_name: string) (e_dir: bool) (e_date: int) (e_mode: nat) (e_data: content)

record stat =
  st_mtime :: int
  st_mode :: nat

datatype node = Dir stat | File stat content

text \<open>
  The filesystem lists its nodes by path, in the order the platform happens to
  iterate them: no order is promised. A path has one node. Paths are compared as
  strings. \<open>/\<close> and \<open>.\<close> always exist.
\<close>

type_synonym filesystem = "(string \<times> node) list"

text \<open>What the process sees of its host: the clock (milliseconds since the
  epoch), the working directory, the modes new files and directories get, and
  the bytes a reader finds in a file whose write stream is still open (they
  depend on timing).\<close>

record host =
  h_now :: int
  h_cwd :: string
  h_fileMode :: nat
  h_dirMode :: nat
  h_selfRead :: string

datatype error =
  IOError string string
| BuildError string
| NotResolved string

definition isDir :: "filesystem \<Rightarrow> string \<Rightarrow> bool" where
  "isDir fs p =
     (p = ''/'' \<or> p = ''.'' \<or> (case map_of fs p of Some (Dir _) \<Rightarrow> True | _ \<Rightarrow> False))"

text \<open>Creating or replacing the file at \<open>p\<close> with the given content
  (\<open>fs.promises.writeFile\<close>, and a write stream closed after its last byte).\<close>

definition write_node :: "host \<Rightarrow> filesystem \<Rightarrow> string \<Rightarrow> content \<Rightarrow> error + filesystem" where
  "write_node h fs p c =
     (case map_of fs p of
        Some (Dir _) \<Rightarrow> Inl (IOError ''EISDIR'' p)
      | Some (File st _) \<Rightarrow> Inr (AList.update p (File (st\<lparr>st_mtime := h_now h\<rparr>) c) fs)
      | None \<Rightarrow>
          if isDir fs (posix_dirname p)
          then Inr (AList.update p (File \<lparr>st_mtime = h_now h, st_mode = h_fileMode h\<rparr> c) fs)
          else Inl (IOError ''ENOENT'' p))"

definition writeFile :: "host \<Rightarrow> filesystem \<Rightarrow> string \<Rightarrow> string \<Rightarrow> error + filesystem" where
  "writeFile h fs p data = write_node h fs p (Bytes data)"

definition readFile :: "filesystem \<Rightarrow> string \<Rightarrow> error + content" where
  "readFile fs p =
     (case map_of fs p of
        Some (File _ c) \<Rightarrow> Inr c
      | Some (Dir _) \<Rightarrow> Inl (IOError ''EISDIR'' p)
      | None \<Rightarrow> Inl (IOError ''ENOENT'' p))"

text \<open>The directories \<open>mkdir\<close> with \<open>recursive: true\<close> visits for a path, outermost
  first: \<open>/a/b\<close> gives \<open>/a\<close>, \<open>/a/b\<close>.\<close>

fun dir_chain_from :: "string \<Rightarrow> string list \<Rightarrow> string list" where
  "dir_chain_from cur [] = []"
| "dir_chain_from cur (s # ss) =
     (let d = (if cur = [] then s else if cur = ''/'' then ''/'' @ s else cur @ ''/'' @ s)
      in d # dir_chain_from d ss)"

definition dir_chain :: "string \<Rightarrow> string list" where
  "dir_chain p =
     dir_chain_from (if p \<noteq> [] \<and> hd p = CHR ''/'' then ''/'' else [])
       (filter (\<lambda>s. s \<noteq> [] \<and> s \<noteq> ''.'') (split_on CHR ''/'' p))"

fun mkdirs :: "host \<Rightarrow> filesystem \<Rightarrow> string list \<Rightarrow> error + filesystem" where
  "mkdirs h fs [] = Inr fs"
| "mkdirs h fs (d # ds) =
     (case map_of fs d of
        Some (File _ _) \<Rightarrow> Inl (IOError ''EEXIST'' d)
      | Some (Dir _) \<Rightarrow> mkdirs h fs ds
      | None \<Rightarrow> mkdirs h (fs @ [(d, Dir \<lparr>st_mtime = h_now h, st_mode = h_dirMode h\<rparr>)]) ds)"

definition mkdir_recursive :: "host \<Rightarrow> filesystem \<Rightarrow> string \<Rightarrow> error + filesystem" where
  "mkdir_recursive h fs p = mkdirs h fs (dir_chain p)"

section \<open>The handler wrapper\<close>

text \<open>
  \<open>wrapHandler\<close> of the constructor. \<open>bindInjection\<close> is \<open>undefined\<close> (\<open>None\<close>) when
  the function binds no component. \<open>!bindInjection\<close> holds for \<open>undefined\<close> and
  for the empty string.
\<close>

definition newHandlerName :: string where
  "newHandlerName = ''server-index''"

definition newHandlerFunction :: string where
  "newHandlerFunction = ''handler''"

definition js_falsy :: "string option \<Rightarrow> bool" where
  "js_falsy v = (case v of None \<Rightarrow> True | Some s \<Rightarrow> s = [])"

definition import_line :: "string \<Rightarrow> string \<Rightarrow> string" where
  \<open>import_line oldHandlerFunction oldHandlerName =
     ''  const { '' @ oldHandlerFunction @ '': rawHandler} = await import("./''
       @ oldHandlerName @ ''.mjs");''\<close>

definition return_line :: string where
  "return_line = ''  return rawHandler(event, context);''"

text \<open>The lines of the generated module, which the code joins by newlines.\<close>

definition wrapper_lines ::
  "bool \<Rightarrow> string list \<Rightarrow> string option \<Rightarrow> string \<Rightarrow> string \<Rightarrow> string list" where
  "wrapper_lines streaming injections bindInjection oldHandlerFunction oldHandlerName =
     (if streaming then
        [''export const '' @ newHandlerFunction
           @ '' = awslambda.streamifyResponse(async (event, context) => {'']
        @ injections
        @ [import_line oldHandlerFunction oldHandlerName, return_line, ''});'']
      else
        [(case bindInjection of None \<Rightarrow> [] | Some b \<Rightarrow> b) @ '';'',
         ''export const '' @ newHandlerFunction @ '' = async (event, context) => {'']
        @ injections
        @ [import_line oldHandlerFunction oldHandlerName, return_line, ''};''])"

text \<open>The result is the filesystem after the call and the handler reference the
  function is created with. \<open>path.join\<close> is the host's; the model takes a POSIX host.\<close>

definition wrapHandler ::
  "host \<Rightarrow> filesystem \<Rightarrow> string \<Rightarrow> string \<Rightarrow> bool \<Rightarrow> string list \<Rightarrow> string option
     \<Rightarrow> error + filesystem \<times> string" where
  "wrapHandler h fs handler bundle streaming injections bindInjection =
     (if injections = [] \<and> js_falsy bindInjection then Inr (fs, handler)
      else
        let handlerDir = p_dir (posix_parse handler);
            oldHandlerName = p_name (posix_parse handler);
            oldHandlerExt = p_ext (posix_parse handler);
            oldHandlerFunction = strip_leading_dot oldHandlerExt
        in case writeFile h fs
                  (posix_join [bundle, handlerDir, newHandlerName @ ''.mjs''])
                  (js_join ''\<newline>''
                     (wrapper_lines streaming injections bindInjection
                        oldHandlerFunction oldHandlerName)) of
             Inl e \<Rightarrow> Inl e
           | Inr fs' \<Rightarrow>
               Inr (fs', posix_join [handlerDir, newHandlerName @ ''.'' @ newHandlerFunction]))"

section \<open>The packager and the hash\<close>

text \<open>
  \<open>archive.glob("**", { cwd: bundle, dot: true }, { date: new Date(0) })\<close> walks
  the directory \<open>cwd\<close> and appends one entry per match, in the order of the walk;
  the constructor passes nothing but the date. The walk reads each directory with
  Node's \<open>readdir\<close>, which returns the names sorted by their bytes, yields every
  name, and goes down into a directory right after yielding it. So a match is a
  node below \<open>cwd\<close> that is reached through directories only, it is named by its
  path relative to \<open>cwd\<close>, and the matches come in the order of the lists of
  segments of their names, whatever the order in which the platform iterates.
  Without \<open>dot\<close>, names with a segment that starts with a dot are skipped.
\<close>

definition rel_to :: "string \<Rightarrow> string \<Rightarrow> string option" where
  "rel_to cwd p =
     (let prefix = (if cwd \<noteq> [] \<and> last cwd = CHR ''/'' then cwd else cwd @ ''/'')
      in if startsWith p prefix \<and> length prefix < length p
         then Some (drop (length prefix) p) else None)"

definition has_dot_segment :: "string \<Rightarrow> bool" where
  "has_dot_segment name = list_ex (\<lambda>seg. startsWith seg ''.'') (split_on CHR ''/'' name)"

text \<open>The nodes below a directory, by their relative names.\<close>

definition below :: "string \<Rightarrow> filesystem \<Rightarrow> (string \<times> node) list" where
  "below cwd fs =
     List.map_filter (\<lambda>(p, nd). map_option (\<lambda>name. (name, nd)) (rel_to cwd p)) fs"

text \<open>A name is reached when every name on the way down to it is a directory.\<close>

definition reached :: "(string \<times> node) list \<Rightarrow> string \<Rightarrow> bool" where
  "reached b name =
     list_all (\<lambda>d. case map_of b d of Some (Dir _) \<Rightarrow> True | _ \<Rightarrow> False)
       (dir_chain_from [] (butlast (split_on CHR ''/'' name)))"

definition walk :: "bool \<Rightarrow> (string \<times> node) list \<Rightarrow> (string \<times> node) list" where
  "walk dot b =
     sort_key (\<lambda>(name, nd). split_on CHR ''/'' name)
       (filter (\<lambda>(name, nd). reached b name \<and> (dot \<or> \<not> has_dot_segment name)) b)"

definition glob_all :: "string \<Rightarrow> bool \<Rightarrow> filesystem \<Rightarrow> (string \<times> node) list" where
  "glob_all cwd dot fs = walk dot (below cwd fs)"

text \<open>The entry the archiver appends for a match: a directory's name gets a
  trailing slash; the entry's date is the \<open>date\<close> of the data passed to \<open>glob\<close>,
  and the node's modification time when none is passed; its mode is the
  permission bits of the node.\<close>

fun archive_entry :: "int option \<Rightarrow> string \<times> node \<Rightarrow> zip_entry" where
  "archive_entry date (name, Dir st) =
     ZipEntry (name @ ''/'') True (case date of Some d \<Rightarrow> d | None \<Rightarrow> st_mtime st)
       (st_mode st mod 4096) (Bytes [])"
| "archive_entry date (name, File st c) =
     ZipEntry name False (case date of Some d \<Rightarrow> d | None \<Rightarrow> st_mtime st)
       (st_mode st mod 4096) c"

definition archive_glob :: "string \<Rightarrow> bool \<Rightarrow> int option \<Rightarrow> filesystem \<Rightarrow> zip_entry list" where
  "archive_glob cwd dot date fs = map (archive_entry date) (glob_all cwd dot fs)"




text \<open>
  \<open>zipBundleFolder\<close>: \<open>work\<close> is \<open>$cli.paths.work\<close>, \<open>name\<close> the component's name.
  The directories are made, the write stream is opened, which creates or empties
  the archive file, then the directory is walked and the archive written. The
  promise is rejected by the archiver's errors only (the walk fails when the
  bundle is not a directory) and resolved when the stream closes: a stream that
  cannot be opened closes at once, so the path is returned and the failure shows
  when the file is read. The result is the filesystem after the call, and the
  path of the archive.
\<close>

definition zipBundleFolder ::
  "host \<Rightarrow> string \<Rightarrow> string \<Rightarrow> filesystem \<Rightarrow> string \<Rightarrow> error + filesystem \<times> string" where
  "zipBundleFolder h work name fs bundle =
     (let zipPath = posix_resolve (h_cwd h) [work, ''artifacts'', name, ''code.zip'']
      in case mkdir_recursive h fs (posix_dirname zipPath) of
           Inl e \<Rightarrow> Inl e
         | Inr fs1 \<Rightarrow>
             (case write_node h fs1 zipPath (Bytes (h_selfRead h)) of
                Inl e \<Rightarrow> Inr (fs1, zipPath)
              | Inr fs2 \<Rightarrow>
                  if \<not> isDir fs2 bundle
                  then Inl (IOError (if map_of fs2 bundle = None then ''ENOENT'' else ''ENOTDIR'')
                              bundle)
                  else (case write_node h fs2 zipPath
                               (Archive (archive_glob bundle True (Some 0) fs2)) of
                          Inl e \<Rightarrow> Inl e
                        | Inr fs3 \<Rightarrow> Inr (fs3, zipPath))))"

text \<open>\<open>calculateHash\<close>: \<open>sha256\<close> stands for
  \<open>crypto.createHash("sha256").update(bytes).digest("hex")\<close>.\<close>

definition calculateHash ::
  "(content \<Rightarrow> string) \<Rightarrow> filesystem \<Rightarrow> string \<Rightarrow> error + string" where
  "calculateHash sha256 fs zipPath =
     (case readFile fs zipPath of Inl e \<Rightarrow> Inl e | Inr c \<Rightarrow> Inr (sha256 c))"

section \<open>The component's arguments\<close>

datatype asset = StringAsset string

datatype archive = AssetArchive "(string \<times> asset) list" | FileArchive string

text \<open>The arguments of \<open>aws.lambda.Function\<close> the constructor sets.\<close>

record lambda_args =
  l_description :: "string option"
  l_code :: archive
  l_handler :: string
  l_role :: string
  l_runtime :: string
  l_timeout :: nat
  l_memorySize :: nat
  l_environment :: "(string \<times> string) list"
  l_architectures :: "string list"

text \<open>\<open>args.nodes.function\<close>, of type \<open>Omit<aws.lambda.FunctionArgs, "role">\<close>: a
  field is \<open>None\<close> when the object does not have the key.\<close>

record lambda_overrides =
  o_description :: "string option"
  o_code :: "archive option"
  o_handler :: "string option"
  o_runtime :: "string option"
  o_timeout :: "nat option"
  o_memorySize :: "nat option"
  o_environment :: "(string \<times> string) list option"
  o_architectures :: "string list option"

text \<open>\<open>FunctionArgs\<close>, the fields the pipeline reads. A bound component is the
  list of its own properties, resolved.\<close>

record function_args =
  a_description :: "string option"
  a_runtime :: "string option"
  a_bundle :: "string option"
  a_handler :: string
  a_timeout :: "string option"
  a_memory :: "string option"
  a_environment :: "(string \<times> string) list option"
  a_bind :: "(string \<times> string) list option"
  a_streaming :: "bool option"
  a_injections :: "string list option"
  a_architecture :: "string option"
  a_nodes_function :: "lambda_overrides option"

text \<open>
  What the constructor takes from outside this file: the host, \<open>$cli.paths.work\<close>,
  the regions of the app and of the provider passed in \<open>opts\<close>, \<open>build\<close> of
  \<open>runtime/node.js\<close> (its result is the error list, or the filesystem with the
  output directory written, the handler and the output directory), SHA-256,
  \<open>bootstrap.forRegion\<close>, \<open>toSeconds\<close>, \<open>toMBs\<close>, \<open>JSON.stringify\<close> of the bound
  properties, and what the provider assigns to a created role and function.
\<close>

record env =
  e_host :: host
  e_work :: string
  e_appRegion :: string
  e_providerRegion :: "string option"
  e_build :: "string \<Rightarrow> function_args \<Rightarrow> filesystem
                \<Rightarrow> string list + filesystem \<times> string \<times> string"
  e_sha256 :: "content \<Rightarrow> string"
  e_forRegion :: "string \<Rightarrow> string"
  e_toSeconds :: "string \<Rightarrow> nat"
  e_toMBs :: "string \<Rightarrow> nat"
  e_stringify :: "(string \<times> string) list \<Rightarrow> string"
  e_roleArn :: "string \<Rightarrow> string"
  e_functionName :: "string \<Rightarrow> string"
  e_lastModified :: "string \<Rightarrow> string"

definition normalizeRegion :: "env \<Rightarrow> string" where
  "normalizeRegion env =
     (case e_providerRegion env of Some region \<Rightarrow> region | None \<Rightarrow> e_appRegion env)"

definition normalizeInjections :: "function_args \<Rightarrow> string list" where
  "normalizeInjections args = (case a_injections args of Some i \<Rightarrow> i | None \<Rightarrow> [])"

definition normalizeRuntime :: "function_args \<Rightarrow> string" where
  "normalizeRuntime args = (case a_runtime args of Some v \<Rightarrow> v | None \<Rightarrow> ''nodejs18.x'')"

definition normalizeTimeout :: "function_args \<Rightarrow> string" where
  "normalizeTimeout args = (case a_timeout args of Some t \<Rightarrow> t | None \<Rightarrow> ''20 seconds'')"

definition normalizeMemory :: "function_args \<Rightarrow> string" where
  "normalizeMemory args = (case a_memory args of Some m \<Rightarrow> m | None \<Rightarrow> ''1024 MB'')"

definition normalizeArchitectures :: "function_args \<Rightarrow> string list" where
  "normalizeArchitectures args =
     (if a_architecture args = Some ''arm64'' then [''arm64''] else [''x86_64''])"

definition normalizeEnvironment :: "function_args \<Rightarrow> (string \<times> string) list" where
  "normalizeEnvironment args = (case a_environment args of Some e \<Rightarrow> e | None \<Rightarrow> [])"

definition normalizeStreaming :: "function_args \<Rightarrow> bool" where
  "normalizeStreaming args = (case a_streaming args of Some b \<Rightarrow> b | None \<Rightarrow> False)"

section \<open>The steps of the constructor\<close>

text \<open>\<open>buildHandler\<close>: a truthy \<open>args.bundle\<close> is used as it is; otherwise the
  bundler runs, and its errors are thrown joined by newlines.\<close>

definition buildHandler ::
  "env \<Rightarrow> string \<Rightarrow> function_args \<Rightarrow> filesystem \<Rightarrow> error + filesystem \<times> string \<times> string" where
  "buildHandler env name args fs =
     (if \<not> js_falsy (a_bundle args)
      then Inr (fs, a_handler args, case a_bundle args of Some b \<Rightarrow> b | None \<Rightarrow> [])
      else case e_build env name args fs of
             Inl errors \<Rightarrow> Inl (BuildError (js_join ''\<newline>'' errors))
           | Inr (fs', handler, out) \<Rightarrow> Inr (fs', handler, out))"

text \<open>\<open>bind\<close>: \<open>undefined\<close> without \<open>args.bind\<close>; otherwise the snippet that sets
  the global named after the component to its properties whose keys do not start
  with two underscores. A missing \<open>__name\<close> prints as \<open>undefined\<close>.\<close>

definition bind :: "env \<Rightarrow> function_args \<Rightarrow> string option" where
  "bind env args =
     (case a_bind args of
        None \<Rightarrow> None
      | Some component \<Rightarrow>
          Some (''globalThis.''
                @ (case map_of component ''__name'' of Some n \<Rightarrow> n | None \<Rightarrow> ''undefined'')
                @ ''=''
                @ e_stringify env (filter (\<lambda>(key, v). \<not> startsWith key ''__'') component)))"

text \<open>\<open>createBucketObject\<close>: the arguments and options of the
  \<open>aws.s3.BucketObjectv2\<close> resource.\<close>

record resource_opts =
  opt_parent :: string
  opt_retainOnDelete :: bool

record bucket_object =
  bo_name :: string
  bo_key :: string
  bo_bucket :: string
  bo_source :: archive
  bo_opts :: resource_opts

definition createBucketObject :: "env \<Rightarrow> string \<Rightarrow> string \<Rightarrow> string \<Rightarrow> bucket_object" where
  "createBucketObject env name bundleHash zipPath =
     \<lparr>bo_name = name @ ''Code'',
      bo_key = ''assets/'' @ name @ ''-code-'' @ bundleHash @ ''.zip'',
      bo_bucket = e_forRegion env (normalizeRegion env),
      bo_source = FileArchive zipPath,
      bo_opts = \<lparr>opt_parent = name, opt_retainOnDelete = True\<rparr>\<rparr>"

text \<open>\<open>createFunction\<close>: the object literal, then the spread of
  \<open>args.nodes?.function\<close>, whose keys replace the ones before it.\<close>

definition placeholder_code :: archive where
  "placeholder_code = AssetArchive [(''index'', StringAsset ''exports.handler = () => {}'')]"

definition spread :: "'a \<Rightarrow> 'a option \<Rightarrow> 'a" where
  "spread v override = (case override of Some w \<Rightarrow> w | None \<Rightarrow> v)"

definition apply_overrides :: "lambda_args \<Rightarrow> lambda_overrides option \<Rightarrow> lambda_args" where
  "apply_overrides base ov =
     (case ov of
        None \<Rightarrow> base
      | Some v \<Rightarrow>
          \<lparr>l_description = (case o_description v of Some d \<Rightarrow> Some d | None \<Rightarrow> l_description base),
           l_code = spread (l_code base) (o_code v),
           l_handler = spread (l_handler base) (o_handler v),
           l_role = l_role base,
           l_runtime = spread (l_runtime base) (o_runtime v),
           l_timeout = spread (l_timeout base) (o_timeout v),
           l_memorySize = spread (l_memorySize base) (o_memorySize v),
           l_environment = spread (l_environment base) (o_environment v),
           l_architectures = spread (l_architectures base) (o_architectures v)\<rparr>)"

definition createFunction :: "env \<Rightarrow> function_args \<Rightarrow> string \<Rightarrow> string \<Rightarrow> lambda_args" where
  "createFunction env args newHandler roleArn =
     apply_overrides
       \<lparr>l_description = a_description args,
        l_code = placeholder_code,
        l_handler = newHandler,
        l_role = roleArn,
        l_runtime = normalizeRuntime args,
        l_timeout = e_toSeconds env (normalizeTimeout args),
        l_memorySize = e_toMBs env (normalizeMemory args),
        l_environment = normalizeEnvironment args,
        l_architectures = normalizeArchitectures args\<rparr>
       (a_nodes_function args)"

text \<open>\<open>args.nodes.function\<close> is absent, or has no \<open>code\<close> key.\<close>

definition no_code_override :: "function_args \<Rightarrow> bool" where
  "no_code_override args =
     (case a_nodes_function args of None \<Rightarrow> True | Some v \<Rightarrow> o_code v = None)"

text \<open>The created function: its arguments and the outputs the provider assigns.\<close>

record lambda_function =
  f_args :: lambda_args
  f_name :: string
  f_lastModified :: string

text \<open>\<open>updateFunctionCode\<close>: the inputs of the \<open>FunctionCodeUpdater\<close> resource.\<close>

record code_updater =
  u_functionName :: string
  u_s3Bucket :: string
  u_s3Key :: string
  u_functionLastModified :: string
  u_region :: string

definition updateFunctionCode :: "env \<Rightarrow> lambda_function \<Rightarrow> bucket_object \<Rightarrow> code_updater" where
  "updateFunctionCode env fnRaw file =
     \<lparr>u_functionName = f_name fnRaw,
      u_s3Bucket = bo_bucket file,
      u_s3Key = bo_key file,
      u_functionLastModified = f_lastModified fnRaw,
      u_region = normalizeRegion env\<rparr>"

section \<open>The deployment as deferred values\<close>

text \<open>
  Every function of the constructor returns a deferred value (a Pulumi \<open>Output\<close>):
  its body runs once the outputs it is applied to are resolved, and resolves its
  own output once. The state of a deployment holds the local filesystem, the blob
  store and, per output, \<open>None\<close> while it is pending and its value afterwards.
  The blob store maps a bucket and a key to the bytes uploaded there.
\<close>

datatype step =
  BuildHandler | Bind | WrapHandler | CreateRole | ZipBundleFolder | CalculateHash
| CreateBucketObject | CreateFunction | UpdateFunctionCode

type_synonym blob_store = "((string \<times> string) \<times> content) list"

record deploy_state =
  d_fs :: filesystem
  d_store :: blob_store
  d_build :: "(string \<times> string) option"
  d_bindInjection :: "string option option"
  d_newHandler :: "string option"
  d_roleArn :: "string option"
  d_zipPath :: "string option"
  d_bundleHash :: "string option"
  d_file :: "bucket_object option"
  d_fnRaw :: "lambda_function option"
  d_updater :: "code_updater option"

definition initial_state :: "filesystem \<Rightarrow> blob_store \<Rightarrow> deploy_state" where
  "initial_state fs store =
     \<lparr>d_fs = fs, d_store = store, d_build = None, d_bindInjection = None,
      d_newHandler = None, d_roleArn = None, d_zipPath = None, d_bundleHash = None,
      d_file = None, d_fnRaw = None, d_updater = None\<rparr>"

text \<open>
  One step is the body of one function of the constructor. The outputs a body is
  applied to are the ones the source names: \<open>wrapHandler\<close> waits for \<open>handler\<close>,
  \<open>bundle\<close> and \<open>bindInjection\<close> (\<open>streaming\<close> and \<open>injections\<close> come from the
  arguments), \<open>zipBundleFolder\<close> for \<open>bundle\<close> alone, \<open>calculateHash\<close> for \<open>zipPath\<close>,
  \<open>createBucketObject\<close> for \<open>bundleHash\<close> and \<open>zipPath\<close>, \<open>createFunction\<close> for
  \<open>newHandler\<close> and the role's ARN, and the code updater for the function's name
  and last-modified marker and the bucket object's bucket and key. A step whose
  inputs are pending cannot run (\<open>NotResolved\<close>); a step whose output is resolved
  does nothing more. Creating the bucket object uploads the file it names.
\<close>

fun run_step :: "env \<Rightarrow> string \<Rightarrow> function_args \<Rightarrow> step \<Rightarrow> deploy_state \<Rightarrow> error + deploy_state" where
  "run_step env name args BuildHandler s =
     (case d_build s of
        Some _ \<Rightarrow> Inr s
      | None \<Rightarrow>
          (case buildHandler env name args (d_fs s) of
             Inl e \<Rightarrow> Inl e
           | Inr (fs', handler, bundle) \<Rightarrow> Inr (s\<lparr>d_fs := fs', d_build := Some (handler, bundle)\<rparr>)))"
| "run_step env name args Bind s =
     (case d_bindInjection s of
        Some _ \<Rightarrow> Inr s
      | None \<Rightarrow> Inr (s\<lparr>d_bindInjection := Some (bind env args)\<rparr>))"
| "run_step env name args WrapHandler s =
     (case d_newHandler s of
        Some _ \<Rightarrow> Inr s
      | None \<Rightarrow>
          (case (d_build s, d_bindInjection s) of
             (Some (handler, bundle), Some bindInjection) \<Rightarrow>
               (case wrapHandler (e_host env) (d_fs s) handler bundle (normalizeStreaming args)
                       (normalizeInjections args) bindInjection of
                  Inl e \<Rightarrow> Inl e
                | Inr (fs', newHandler) \<Rightarrow> Inr (s\<lparr>d_fs := fs', d_newHandler := Some newHandler\<rparr>))
           | _ \<Rightarrow> Inl (NotResolved ''wrapHandler'')))"
| "run_step env name args CreateRole s =
     (case d_roleArn s of
        Some _ \<Rightarrow> Inr s
      | None \<Rightarrow> Inr (s\<lparr>d_roleArn := Some (e_roleArn env (name @ ''Role''))\<rparr>))"
| "run_step env name args ZipBundleFolder s =
     (case d_zipPath s of
        Some _ \<Rightarrow> Inr s
      | None \<Rightarrow>
          (case d_build s of
             Some (handler, bundle) \<Rightarrow>
               (case zipBundleFolder (e_host env) (e_work env) name (d_fs s) bundle of
                  Inl e \<Rightarrow> Inl e
                | Inr (fs', zipPath) \<Rightarrow> Inr (s\<lparr>d_fs := fs', d_zipPath := Some zipPath\<rparr>))
           | None \<Rightarrow> Inl (NotResolved ''zipBundleFolder'')))"
| "run_step env name args CalculateHash s =
     (case d_bundleHash s of
        Some _ \<Rightarrow> Inr s
      | None \<Rightarrow>
          (case d_zipPath s of
             Some zipPath \<Rightarrow>
               (case calculateHash (e_sha256 env) (d_fs s) zipPath of
                  Inl e \<Rightarrow> Inl e
                | Inr hash \<Rightarrow> Inr (s\<lparr>d_bundleHash := Some hash\<rparr>))
           | None \<Rightarrow> Inl (NotResolved ''calculateHash'')))"
| "run_step env name args CreateBucketObject s =
     (case d_file s of
        Some _ \<Rightarrow> Inr s
      | None \<Rightarrow>
          (case (d_bundleHash s, d_zipPath s) of
             (Some bundleHash, Some zipPath) \<Rightarrow>
               (case readFile (d_fs s) zipPath of
                  Inl e \<Rightarrow> Inl e
                | Inr c \<Rightarrow>
                    (let file = createBucketObject env name bundleHash zipPath
                     in Inr (s\<lparr>d_store := AList.update (bo_bucket file, bo_key file) c (d_store s),
                              d_file := Some file\<rparr>)))
           | _ \<Rightarrow> Inl (NotResolved ''createBucketObject'')))"
| "run_step env name args CreateFunction s =
     (case d_fnRaw s of
        Some _ \<Rightarrow> Inr s
      | None \<Rightarrow>
          (case (d_newHandler s, d_roleArn s) of
             (Some newHandler, Some roleArn) \<Rightarrow>
               Inr (s\<lparr>d_fnRaw :=
                        Some \<lparr>f_args = createFunction env args newHandler roleArn,
                              f_name = e_functionName env (name @ ''Function''),
                              f_lastModified = e_lastModified env (name @ ''Function'')\<rparr>\<rparr>)
           | _ \<Rightarrow> Inl (NotResolved ''createFunction'')))"
| "run_step env name args UpdateFunctionCode s =
     (case d_updater s of
        Some _ \<Rightarrow> Inr s
      | None \<Rightarrow>
          (case (d_fnRaw s, d_file s) of
             (Some fnRaw, Some file) \<Rightarrow>
               Inr (s\<lparr>d_updater := Some (updateFunctionCode env fnRaw file)\<rparr>)
           | _ \<Rightarrow> Inl (NotResolved ''updateFunctionCode'')))"

text \<open>A schedule is the order in which the bodies run. The engine may pick any
  order in which every body finds its inputs resolved.\<close>

fun run :: "env \<Rightarrow> string \<Rightarrow> function_args \<Rightarrow> step list \<Rightarrow> deploy_state \<Rightarrow> error + deploy_state" where
  "run env name args [] s = Inr s"
| "run env name args (x # xs) s =
     (case run_step env name args x s of
        Inl e \<Rightarrow> Inl e
      | Inr s' \<Rightarrow> run env name args xs s')"

text \<open>\<open>precedes a b xs\<close>: the schedule has an \<open>a\<close> before its first \<open>b\<close>, or no \<open>b\<close>.\<close>

fun precedes :: "step \<Rightarrow> step \<Rightarrow> step list \<Rightarrow> bool" where
  "precedes a b [] = True"
| "precedes a b (x # xs) = (if x = a then True else if x = b then False else precedes a b xs)"

text \<open>
  A state is consistent when every resource in it was built from the resolved
  outputs it is applied to: the bucket object from the digest and the archive's
  path, the function from the new handler and the role's ARN, the code updater
  from the function and the bucket object.
\<close>

definition consistent :: "env \<Rightarrow> string \<Rightarrow> function_args \<Rightarrow> deploy_state \<Rightarrow> bool" where
  "consistent env name args s =
     ((case d_file s of
         None \<Rightarrow> True
       | Some file \<Rightarrow>
           (case (d_bundleHash s, d_zipPath s) of
              (Some bundleHash, Some zipPath) \<Rightarrow>
                file = createBucketObject env name bundleHash zipPath
            | _ \<Rightarrow> False))
      \<and> (case d_fnRaw s of
            None \<Rightarrow> True
          | Some fnRaw \<Rightarrow>
              (case (d_newHandler s, d_roleArn s) of
                 (Some newHandler, Some roleArn) \<Rightarrow>
                   fnRaw = \<lparr>f_args = createFunction env args newHandler roleArn,
                            f_name = e_functionName env (name @ ''Function''),
                            f_lastModified = e_lastModified env (name @ ''Function'')\<rparr>
               | _ \<Rightarrow> False))
      \<and> (case d_updater s of
            None \<Rightarrow> True
          | Some u \<Rightarrow>
              (case (d_fnRaw s, d_file s) of
                 (Some fnRaw, Some file) \<Rightarrow> u = updateFunctionCode env fnRaw file
               | _ \<Rightarrow> False)))"

text \<open>Destroying a resource: the engine calls the provider's delete, which
  removes the object from its bucket, unless the resource was registered with
  \<open>retainOnDelete\<close>.\<close>

definition destroy_bucket_object :: "bucket_object \<Rightarrow> blob_store \<Rightarrow> blob_store" where
  "destroy_bucket_object file store =
     (if opt_retainOnDelete (bo_opts file) then store
      else AList.delete (bo_bucket file, bo_key file) store)"

section \<open>An example deployment\<close>

definition example_host :: host where
  "example_host =
     \<lparr>h_now = 1700000000000, h_cwd = ''/work'', h_fileMode = 420, h_dirMode = 493,
      h_selfRead = []\<rparr>"


definition example_fs :: filesystem where
  "example_fs =
     [(''/out'', Dir \<lparr>st_mtime = 5, st_mode = 493\<rparr>),
      (''/out/src'', Dir \<lparr>st_mtime = 5, st_mode = 493\<rparr>),
      (''/out/src/index.mjs'',
       File \<lparr>st_mtime = 7, st_mode = 420\<rparr> (Bytes ''export const handler = () => 1'')),
      (''/out/.env'', File \<lparr>st_mtime = 9, st_mode = 384\<rparr> (Bytes ''A=1''))]"

text \<open>The same directory after its files were touched, as another platform
  iterates it.\<close>

definition example_fs_touched :: filesystem where
  "example_fs_touched =
     [(''/out/.env'', File \<lparr>st_mtime = 1700000000400, st_mode = 384\<rparr> (Bytes ''A=1'')),
      (''/out/src/index.mjs'',
       File \<lparr>st_mtime = 1700000000300, st_mode = 420\<rparr>
         (Bytes ''export const handler = () => 1'')),
      (''/out/src'', Dir \<lparr>st_mtime = 1700000000200, st_mode = 493\<rparr>),
      (''/out'', Dir \<lparr>st_mtime = 1700000000100, st_mode = 493\<rparr>)]"

definition example_args :: function_args where
  "example_args =
     \<lparr>a_description = None, a_runtime = None, a_bundle = Some ''/out'',
      a_handler = ''src/index.handler'', a_timeout = None, a_memory = None,
      a_environment = None, a_bind = None, a_streaming = None,
      a_injections = Some [''globalThis.x=1''], a_architecture = None,
      a_nodes_function = None\<rparr>"

text \<open>The directories \<open>zipBundleFolder\<close> creates for the function \<open>Fn\<close> under the
  work directory \<open>/work/.sst\<close>, and the archive of the example directory.\<close>

definition example_artifact_dirs :: "int \<Rightarrow> filesystem" where
  "example_artifact_dirs now =
     [(''/work'', Dir \<lparr>st_mtime = now, st_mode = 493\<rparr>),
      (''/work/.sst'', Dir \<lparr>st_mtime = now, st_mode = 493\<rparr>),
      (''/work/.sst/artifacts'', Dir \<lparr>st_mtime = now, st_mode = 493\<rparr>),
      (''/work/.sst/artifacts/Fn'', Dir \<lparr>st_mtime = now, st_mode = 493\<rparr>)]"

definition example_zip_path :: string where
  "example_zip_path = ''/work/.sst/artifacts/Fn/code.zip''"

definition example_archive :: "zip_entry list" where
  "example_archive =
     [ZipEntry ''.env'' False 0 384 (Bytes ''A=1''),
      ZipEntry ''src/'' True 0 493 (Bytes []),
      ZipEntry ''src/index.mjs'' False 0 420 (Bytes ''export const handler = () => 1'')]"

definition example_fs_zipped :: filesystem where
  "example_fs_zipped =
     example_fs @ example_artifact_dirs 1700000000000 @
     [(example_zip_path,
       File \<lparr>st_mtime = 1700000000000, st_mode = 420\<rparr> (Archive example_archive))]"


text \<open>The example's surroundings. The digest is a stand-in for SHA-256: one
  hexadecimal digit per entry of an archive. \<open>JSON.stringify\<close> is written out for
  strings that need no escaping. The bundler is not used, since the example
  passes its bundle.\<close>

definition example_digest :: "content \<Rightarrow> string" where
  "example_digest c =
     (case c of Bytes b \<Rightarrow> ''0'' | Archive es \<Rightarrow> replicate (length es) CHR ''f'')"

definition example_stringify :: "(string \<times> string) list \<Rightarrow> string" where
  \<open>example_stringify props =
     ''{'' @ js_join '','' (map (\<lambda>(k, v). ''"'' @ k @ ''":"'' @ v @ ''"'') props) @ ''}''\<close>

definition example_env :: env where
  "example_env =
     \<lparr>e_host = example_host, e_work = ''/work/.sst'', e_appRegion = ''us-east-1'',
      e_providerRegion = None,
      e_build = (\<lambda>name args fs. Inl [''no bundler'']),
      e_sha256 = example_digest,
      e_forRegion = (\<lambda>region. ''sst-assets-'' @ region),
      e_toSeconds = (\<lambda>d. 20),
      e_toMBs = (\<lambda>m. 1024),
      e_stringify = example_stringify,
      e_roleArn = (\<lambda>n. ''arn:aws:iam::000000000000:role/'' @ n),
      e_functionName = (\<lambda>n. n @ ''-abc''),
      e_lastModified = (\<lambda>n. ''2023-11-14T22:13:20.000+0000'')\<rparr>"

text \<open>The example function, bound to a component.\<close>

definition example_args_bound :: function_args where
  "example_args_bound =
     example_args\<lparr>a_bind := Some [(''__name'', ''bucket''), (''name'', ''my-bucket'')]\<rparr>"

text \<open>Two schedules of the example: in the first the wrapper is written before
  the directory is archived, in the second after.\<close>

definition wrap_first :: "step list" where
  "wrap_first =
     [BuildHandler, Bind, WrapHandler, CreateRole, ZipBundleFolder, CalculateHash,
      CreateBucketObject, CreateFunction, UpdateFunctionCode]"

definition zip_first :: "step list" where
  "zip_first =
     [BuildHandler, ZipBundleFolder, CalculateHash, CreateBucketObject, Bind, WrapHandler,
      CreateRole, CreateFunction, UpdateFunctionCode]"

text \<open>Arguments whose \<open>nodes.function\<close> names a \<open>code\<close> of its own.\<close>

definition example_args_code_override :: function_args where
  "example_args_code_override =
     example_args\<lparr>a_nodes_function :=
       Some \<lparr>o_description = None, o_code = Some (FileArchive ''/work/.sst/artifacts/Fn/code.zip''),
             o_handler = None, o_runtime = None, o_timeout = None, o_memorySize = None,
             o_environment = None, o_architectures = None\<rparr>\<rparr>"

section \<open>Properties of the path functions and the filesystem\<close>

lemma parse_src_index_handler:
  "posix_parse ''src/index.handler'' =
     \<lparr>p_root = [], p_dir = ''src'', p_base = ''index.handler'', p_ext = ''.handler'',
      p_name = ''index''\<rparr>"
  by (simp add: posix_parse_def scan_char_def js_slice_def Let_def)

lemma parse_src_index:
  "posix_parse ''src/index'' =
     \<lparr>p_root = [], p_dir = ''src'', p_base = ''index'', p_ext = [], p_name = ''index''\<rparr>"
  by (simp add: posix_parse_def scan_char_def js_slice_def Let_def)

lemma join_src_server_index:
  "posix_join [''src'', ''server-index.handler''] = ''src/server-index.handler''"
  by (simp add: posix_join_def posix_normalize_def normalizeString_def Let_def)

lemma join_out_src_server_index:
  "posix_join [''/out'', ''src'', ''server-index.mjs''] = ''/out/src/server-index.mjs''"
  by (simp add: posix_join_def posix_normalize_def normalizeString_def Let_def)

lemma dirname_out_src_server_index:
  "posix_dirname ''/out/src/server-index.mjs'' = ''/out/src''"
  by (simp add: posix_dirname_def js_slice_def Let_def)

text \<open>A path without a dot has no extension.\<close>

lemma parse_loop_no_dot:
  "CHR ''.'' \<notin> set path \<Longrightarrow> start + k \<le> length path \<Longrightarrow> startDot st = -1
     \<Longrightarrow> startDot (parse_loop path start k st) = -1"
proof (induction k arbitrary: st)
  case 0
  then show ?case by simp
next
  case (Suc k)
  have inr: "start + k < length path" using Suc.prems(2) by simp
  then have nodot: "path ! (start + k) \<noteq> CHR ''.''"
    using Suc.prems(1) nth_mem by metis
  have keep: "startDot (scan_char (path ! (start + k)) (int (start + k)) st) = -1"
    using nodot Suc.prems(3) by (simp add: scan_char_def Let_def)
  show ?case
    using Suc.IH [OF Suc.prems(1)] inr Suc.prems(3) keep
    by (simp add: Let_def)
qed

lemma no_dot_no_ext: "CHR ''.'' \<notin> set path \<Longrightarrow> p_ext (posix_parse path) = []"
  using parse_loop_no_dot [of path "if hd path = CHR ''/'' then 1 else 0"
      "length path - (if hd path = CHR ''/'' then 1 else 0)"
      "\<lparr>startDot = -1, startPart = 0, endIdx = -1, matchedSlash = True, preDotState = 0\<rparr>"]
  by (cases path) (auto simp: posix_parse_def Let_def)

lemma write_node_errors: "write_node h fs p c = Inl e \<Longrightarrow> \<exists>code q. e = IOError code q"
  by (auto simp: write_node_def split: option.splits node.splits if_splits)


lemma write_example_wrapper:
  "writeFile example_host example_fs ''/out/src/server-index.mjs'' data =
     Inr (example_fs @
          [(''/out/src/server-index.mjs'',
            File \<lparr>st_mtime = 1700000000000, st_mode = 420\<rparr> (Bytes data))])"
  by (simp add: writeFile_def write_node_def example_fs_def example_host_def isDir_def
      dirname_out_src_server_index)

section \<open>Properties of the handler wrapper\<close>

text \<open>
  Claim C2. With an empty injection list and no binding snippet, \<open>wrapHandler\<close>
  returns the handler it was given, and the filesystem it returns is the one it
  was given: no file is written. The same holds when the binding snippet is the
  empty string, which the code's test treats like an absent one.
\<close>

theorem wrapHandler_unchanged:
  "wrapHandler h fs handler bundle streaming [] None = Inr (fs, handler)
   \<and> wrapHandler h fs handler bundle streaming [] (Some []) = Inr (fs, handler)"
  by (simp add: wrapHandler_def js_falsy_def)

text \<open>
  Claim C3. For the handler \<open>src/index.handler\<close>, the injections
  \<open>globalThis.x=1\<close>, no streaming and no binding, \<open>wrapHandler\<close> writes
  \<open>server-index.mjs\<close> in \<open>src\<close> of the bundle: a module that exports \<open>handler\<close>,
  whose body runs \<open>globalThis.x=1\<close>, then imports \<open>./index.mjs\<close> and calls its
  \<open>handler\<close> export. It returns \<open>src/server-index.handler\<close>. The module name and
  the export name are the constants \<open>server-index\<close> and \<open>handler\<close> for every
  input. On the example filesystem the write succeeds.
\<close>

theorem wrapHandler_scenario:
  \<open>wrapHandler h fs ''src/index.handler'' bundle False [''globalThis.x=1''] None =
     (case writeFile h fs (posix_join [bundle, ''src'', ''server-index.mjs''])
             '';\<newline>export const handler = async (event, context) => {\<newline>globalThis.x=1\<newline>  const { handler: rawHandler} = await import("./index.mjs");\<newline>  return rawHandler(event, context);\<newline>};'' of
        Inl e \<Rightarrow> Inl e
      | Inr fs' \<Rightarrow> Inr (fs', ''src/server-index.handler''))
   \<and> wrapHandler example_host example_fs ''src/index.handler'' ''/out'' False
         [''globalThis.x=1''] None =
       Inr (example_fs @
            [(''/out/src/server-index.mjs'',
              File \<lparr>st_mtime = 1700000000000, st_mode = 420\<rparr>
                (Bytes '';\<newline>export const handler = async (event, context) => {\<newline>globalThis.x=1\<newline>  const { handler: rawHandler} = await import("./index.mjs");\<newline>  return rawHandler(event, context);\<newline>};''))],
            ''src/server-index.handler'')
   \<and> newHandlerName = ''server-index'' \<and> newHandlerFunction = ''handler''
   \<and> wrapHandler h fs handler bundle streaming injections bindInjection =
       (if injections = [] \<and> js_falsy bindInjection then Inr (fs, handler)
        else case writeFile h fs
                    (posix_join [bundle, p_dir (posix_parse handler), ''server-index.mjs''])
                    (js_join ''\<newline>''
                       (wrapper_lines streaming injections bindInjection
                          (strip_leading_dot (p_ext (posix_parse handler)))
                          (p_name (posix_parse handler)))) of
               Inl e \<Rightarrow> Inl e
             | Inr fs' \<Rightarrow>
                 Inr (fs', posix_join [p_dir (posix_parse handler), ''server-index.handler'']))\<close>
proof -
  have general:
    \<open>wrapHandler h fs ''src/index.handler'' out False [''globalThis.x=1''] None =
     (case writeFile h fs (posix_join [out, ''src'', ''server-index.mjs''])
             '';\<newline>export const handler = async (event, context) => {\<newline>globalThis.x=1\<newline>  const { handler: rawHandler} = await import("./index.mjs");\<newline>  return rawHandler(event, context);\<newline>};'' of
        Inl e \<Rightarrow> Inl e
      | Inr fs' \<Rightarrow> Inr (fs', ''src/server-index.handler''))\<close> for h fs out
    by (simp add: wrapHandler_def js_falsy_def parse_src_index_handler join_src_server_index
        wrapper_lines_def import_line_def return_line_def newHandlerName_def
        newHandlerFunction_def Let_def cong: sum.case_cong)
  have concrete:
    \<open>wrapHandler example_host example_fs ''src/index.handler'' ''/out'' False
         [''globalThis.x=1''] None =
       Inr (example_fs @
            [(''/out/src/server-index.mjs'',
              File \<lparr>st_mtime = 1700000000000, st_mode = 420\<rparr>
                (Bytes '';\<newline>export const handler = async (event, context) => {\<newline>globalThis.x=1\<newline>  const { handler: rawHandler} = await import("./index.mjs");\<newline>  return rawHandler(event, context);\<newline>};''))],
            ''src/server-index.handler'')\<close>
    unfolding general join_out_src_server_index write_example_wrapper by simp
  have names:
    "wrapHandler h fs handler bundle streaming injections bindInjection =
       (if injections = [] \<and> js_falsy bindInjection then Inr (fs, handler)
        else case writeFile h fs
                    (posix_join [bundle, p_dir (posix_parse handler), ''server-index.mjs''])
                    (js_join ''\<newline>''
                       (wrapper_lines streaming injections bindInjection
                          (strip_leading_dot (p_ext (posix_parse handler)))
                          (p_name (posix_parse handler)))) of
               Inl e \<Rightarrow> Inl e
             | Inr fs' \<Rightarrow>
                 Inr (fs', posix_join [p_dir (posix_parse handler), ''server-index.handler'']))"
    by (simp add: wrapHandler_def Let_def newHandlerName_def newHandlerFunction_def
        cong: sum.case_cong)
  show ?thesis
    using general concrete names by (simp add: newHandlerName_def newHandlerFunction_def)
qed

text \<open>
  Claim C4. Without streaming and with at least one injection, the generated
  module is, line by line: the binding snippet (empty when there is none) followed
  by a semicolon, at the top level; the line that opens the exported async
  \<open>handler\<close>; the injection snippets in the order supplied; the dynamic import of
  the original module; the call of the original handler; the line that closes the
  function. The import is inside the function and after every injection.
\<close>

theorem wrapper_nonstreaming_order:
  assumes "injections \<noteq> []"
  shows "wrapHandler h fs handler bundle False injections bindInjection =
           (case writeFile h fs
                   (posix_join [bundle, p_dir (posix_parse handler), ''server-index.mjs''])
                   (js_join ''\<newline>''
                      ([(case bindInjection of None \<Rightarrow> [] | Some b \<Rightarrow> b) @ '';'',
                        ''export const handler = async (event, context) => {'']
                       @ injections
                       @ [import_line (strip_leading_dot (p_ext (posix_parse handler)))
                            (p_name (posix_parse handler)),
                          return_line, ''};''])) of
              Inl e \<Rightarrow> Inl e
            | Inr fs' \<Rightarrow>
                Inr (fs', posix_join [p_dir (posix_parse handler), ''server-index.handler'']))
         \<and> (\<forall>i<length injections.
               wrapper_lines False injections bindInjection f n ! (2 + i) = injections ! i)
         \<and> wrapper_lines False injections bindInjection f n ! 0 =
             (case bindInjection of None \<Rightarrow> [] | Some b \<Rightarrow> b) @ '';''
         \<and> wrapper_lines False injections bindInjection f n ! 1 =
             ''export const handler = async (event, context) => {''
         \<and> wrapper_lines False injections bindInjection f n ! (2 + length injections) =
             import_line f n
         \<and> wrapper_lines False injections bindInjection f n ! (3 + length injections) =
             return_line
         \<and> wrapper_lines False injections bindInjection f n ! (4 + length injections) = ''};''
         \<and> length (wrapper_lines False injections bindInjection f n) = 5 + length injections"
  using assms
  by (auto simp: wrapHandler_def Let_def wrapper_lines_def newHandlerName_def
      newHandlerFunction_def nth_append cong: sum.case_cong)

theorem wrapper_nonstreaming_order_witness:
  \<open>[''globalThis.x=1'', ''globalThis.y=2''] \<noteq> []
   \<and> wrapHandler example_host example_fs ''src/index.handler'' ''/out'' False
         [''globalThis.x=1'', ''globalThis.y=2''] (Some ''globalThis.b={}'') =
       Inr (example_fs @
            [(''/out/src/server-index.mjs'',
              File \<lparr>st_mtime = 1700000000000, st_mode = 420\<rparr>
                (Bytes ''globalThis.b={};\<newline>export const handler = async (event, context) => {\<newline>globalThis.x=1\<newline>globalThis.y=2\<newline>  const { handler: rawHandler} = await import("./index.mjs");\<newline>  return rawHandler(event, context);\<newline>};''))],
            ''src/server-index.handler'')\<close>
proof -
  have ne: "[''globalThis.x=1'', ''globalThis.y=2''] \<noteq> []" by simp
  show ?thesis
    using wrapper_nonstreaming_order [OF ne, of example_host example_fs
        "''src/index.handler''" "''/out''" "Some ''globalThis.b={}''"]
    by (simp add: parse_src_index_handler join_src_server_index join_out_src_server_index
        write_example_wrapper import_line_def return_line_def)
qed

text \<open>
  Claim C5, as amended. A handler reference without the separator has an empty
  extension (\<open>no_dot_no_ext\<close>: every reference without a dot has). \<open>wrapHandler\<close>
  does not check for it: when it wraps, it writes the module with an empty export
  name in the import line and returns the new reference; the only error it can
  return is the I/O error of the write.
\<close>

theorem wrapHandler_no_separator:
  assumes "p_ext (posix_parse handler) = []"
    and "\<not> (injections = [] \<and> js_falsy bindInjection)"
  shows "wrapHandler h fs handler bundle streaming injections bindInjection =
           (case writeFile h fs
                   (posix_join [bundle, p_dir (posix_parse handler), ''server-index.mjs''])
                   (js_join ''\<newline>''
                      (wrapper_lines streaming injections bindInjection []
                         (p_name (posix_parse handler)))) of
              Inl e \<Rightarrow> Inl e
            | Inr fs' \<Rightarrow>
                Inr (fs', posix_join [p_dir (posix_parse handler), ''server-index.handler'']))
         \<and> (\<forall>e. wrapHandler h fs handler bundle streaming injections bindInjection = Inl e
                \<longrightarrow> (\<exists>code q. e = IOError code q))"
proof -
  have eq: "wrapHandler h fs handler bundle streaming injections bindInjection =
           (case writeFile h fs
                   (posix_join [bundle, p_dir (posix_parse handler), ''server-index.mjs''])
                   (js_join ''\<newline>''
                      (wrapper_lines streaming injections bindInjection []
                         (p_name (posix_parse handler)))) of
              Inl e \<Rightarrow> Inl e
            | Inr fs' \<Rightarrow>
                Inr (fs', posix_join [p_dir (posix_parse handler), ''server-index.handler'']))"
    using assms
    by (auto simp: wrapHandler_def Let_def newHandlerName_def newHandlerFunction_def
        cong: sum.case_cong)
  have "\<exists>code q. e = IOError code q"
    if "wrapHandler h fs handler bundle streaming injections bindInjection = Inl e" for e
    using that write_node_errors unfolding eq writeFile_def
    by (auto split: sum.splits)
  with eq show ?thesis by blast
qed

theorem wrapHandler_no_separator_witness:
  \<open>p_ext (posix_parse ''src/index'') = []
   \<and> \<not> ([''globalThis.x=1''] = [] \<and> js_falsy None)
   \<and> wrapHandler example_host example_fs ''src/index'' ''/out'' False [''globalThis.x=1''] None =
       Inr (example_fs @
            [(''/out/src/server-index.mjs'',
              File \<lparr>st_mtime = 1700000000000, st_mode = 420\<rparr>
                (Bytes '';\<newline>export const handler = async (event, context) => {\<newline>globalThis.x=1\<newline>  const { : rawHandler} = await import("./index.mjs");\<newline>  return rawHandler(event, context);\<newline>};''))],
            ''src/server-index.handler'')\<close>
proof -
  have ext: "p_ext (posix_parse ''src/index'') = []" by (simp add: parse_src_index)
  have wraps: "\<not> ([''globalThis.x=1''] = [] \<and> js_falsy None)" by simp
  show ?thesis
    using wrapHandler_no_separator [OF ext wraps, of example_host example_fs "''/out''" False]
    by (simp add: parse_src_index join_src_server_index join_out_src_server_index
        write_example_wrapper wrapper_lines_def import_line_def return_line_def
        newHandlerFunction_def)
qed

text \<open>The claim as stated fails: for \<open>src/index\<close> the wrapping step returns no
  error; it writes the module and returns the new reference.\<close>

theorem wrapHandler_no_separator_counterexample:
  \<open>wrapHandler example_host example_fs ''src/index'' ''/out'' False [''globalThis.x=1''] None =
     Inr (example_fs @
          [(''/out/src/server-index.mjs'',
            File \<lparr>st_mtime = 1700000000000, st_mode = 420\<rparr>
              (Bytes '';\<newline>export const handler = async (event, context) => {\<newline>globalThis.x=1\<newline>  const { : rawHandler} = await import("./index.mjs");\<newline>  return rawHandler(event, context);\<newline>};''))],
          ''src/server-index.handler'')\<close>
  by (simp add: wrapHandler_def js_falsy_def parse_src_index join_src_server_index
      join_out_src_server_index write_example_wrapper wrapper_lines_def import_line_def
      return_line_def newHandlerName_def newHandlerFunction_def Let_def)

text \<open>A binding snippet, when \<open>bind\<close> returns one, is not empty.\<close>

lemma bind_nonempty: "bind env args = Some b \<Longrightarrow> b \<noteq> []"
  by (auto simp: bind_def split: option.splits)

text \<open>
  Claim C10. With streaming and a binding snippet, \<open>wrapHandler\<close> wraps even when
  the injection list is empty: it writes the module and returns the new reference.
  The module is the opening line of the streaming adapter, the injections, the
  import, the call and the closing line: the binding snippet is not emitted, and
  the lines are the ones generated without a binding.
\<close>

theorem wrapper_streaming_drops_binding:
  assumes "b \<noteq> []"
  shows "wrapHandler h fs handler bundle True injections (Some b) =
           (case writeFile h fs
                   (posix_join [bundle, p_dir (posix_parse handler), ''server-index.mjs''])
                   (js_join ''\<newline>''
                      ([''export const handler = awslambda.streamifyResponse(async (event, context) => {'']
                       @ injections
                       @ [import_line (strip_leading_dot (p_ext (posix_parse handler)))
                            (p_name (posix_parse handler)),
                          return_line, ''});''])) of
              Inl e \<Rightarrow> Inl e
            | Inr fs' \<Rightarrow>
                Inr (fs', posix_join [p_dir (posix_parse handler), ''server-index.handler'']))
         \<and> wrapper_lines True injections (Some b) f n = wrapper_lines True injections None f n"
  using assms
  by (auto simp: wrapHandler_def Let_def wrapper_lines_def newHandlerName_def
      newHandlerFunction_def js_falsy_def cong: sum.case_cong)

theorem wrapper_streaming_drops_binding_witness:
  \<open>''globalThis.b={}'' \<noteq> []
   \<and> wrapHandler example_host example_fs ''src/index.handler'' ''/out'' True []
         (Some ''globalThis.b={}'') =
       Inr (example_fs @
            [(''/out/src/server-index.mjs'',
              File \<lparr>st_mtime = 1700000000000, st_mode = 420\<rparr>
                (Bytes ''export const handler = awslambda.streamifyResponse(async (event, context) => {\<newline>  const { handler: rawHandler} = await import("./index.mjs");\<newline>  return rawHandler(event, context);\<newline>});''))],
            ''src/server-index.handler'')\<close>
proof -
  have ne: "''globalThis.b={}'' \<noteq> []" by simp
  show ?thesis
    using wrapper_streaming_drops_binding [OF ne, of example_host example_fs
        "''src/index.handler''" "''/out''" "[]"]
    by (simp add: parse_src_index_handler join_src_server_index join_out_src_server_index
        write_example_wrapper import_line_def return_line_def)
qed

section \<open>Properties of the packager, the hash and the published object\<close>





























text \<open>Without the date passed to \<open>glob\<close>, touching the files changes the archive.\<close>

lemma unpinned_dates_differ:
  "archive_glob ''/out'' True None example_fs \<noteq> archive_glob ''/out'' True None example_fs_touched"
  by code_simp



text \<open>
  Claim C6, as amended. The bucket object's key is \<open>assets/\<close>, the component's
  name, \<open>-code-\<close>, the digest and \<open>.zip\<close>. A digest \<open>calculateHash\<close> returns is the
  SHA-256 of the content of the archive file, and creating the bucket object
  stores that file's content under the key.
\<close>

theorem bucket_object_key:
  "bo_key (createBucketObject env name bundleHash zipPath) =
     ''assets/'' @ name @ ''-code-'' @ bundleHash @ ''.zip''
   \<and> bo_source (createBucketObject env name bundleHash zipPath) = FileArchive zipPath
   \<and> (calculateHash (e_sha256 env) fs zipPath = Inr bundleHash \<longrightarrow>
        (\<exists>c. readFile fs zipPath = Inr c \<and> bundleHash = e_sha256 env c))
   \<and> (d_file s = None \<and> d_bundleHash s = Some bundleHash \<and> d_zipPath s = Some zipPath
        \<and> readFile (d_fs s) zipPath = Inr c \<longrightarrow>
        (\<exists>s'. run_step env name args CreateBucketObject s = Inr s'
              \<and> d_file s' = Some (createBucketObject env name bundleHash zipPath)
              \<and> map_of (d_store s')
                   (e_forRegion env (normalizeRegion env),
                    ''assets/'' @ name @ ''-code-'' @ bundleHash @ ''.zip'') = Some c))"
  by (auto simp: createBucketObject_def calculateHash_def update_conv' Let_def
      split: sum.splits)


theorem bucket_object_key_witness:
  "calculateHash (e_sha256 example_env) example_fs_zipped example_zip_path = Inr ''fff''
   \<and> readFile example_fs_zipped example_zip_path = Inr (Archive example_archive)
   \<and> ''fff'' = e_sha256 example_env (Archive example_archive)
   \<and> bo_key (createBucketObject example_env ''Fn'' ''fff'' example_zip_path) =
       ''assets/Fn-code-fff.zip''
   \<and> (\<exists>s'. run_step example_env ''Fn'' example_args CreateBucketObject
               ((initial_state example_fs_zipped [])
                  \<lparr>d_zipPath := Some example_zip_path, d_bundleHash := Some ''fff''\<rparr>) = Inr s'
            \<and> map_of (d_store s') (''sst-assets-us-east-1'', ''assets/Fn-code-fff.zip'') =
                Some (Archive example_archive))"
proof -
  have hash: "calculateHash (e_sha256 example_env) example_fs_zipped example_zip_path = Inr ''fff''"
    by code_simp
  have rd: "readFile example_fs_zipped example_zip_path = Inr (Archive example_archive)"
    by code_simp
  have pre: "d_file ((initial_state example_fs_zipped [])
                  \<lparr>d_zipPath := Some example_zip_path, d_bundleHash := Some ''fff''\<rparr>) = None
     \<and> d_bundleHash ((initial_state example_fs_zipped [])
                  \<lparr>d_zipPath := Some example_zip_path, d_bundleHash := Some ''fff''\<rparr>) = Some ''fff''
     \<and> d_zipPath ((initial_state example_fs_zipped [])
                  \<lparr>d_zipPath := Some example_zip_path, d_bundleHash := Some ''fff''\<rparr>) =
         Some example_zip_path
     \<and> readFile (d_fs ((initial_state example_fs_zipped [])
                  \<lparr>d_zipPath := Some example_zip_path, d_bundleHash := Some ''fff''\<rparr>))
         example_zip_path = Inr (Archive example_archive)"
    using rd by (simp add: initial_state_def)
  have bucket: "e_forRegion example_env (normalizeRegion example_env) = ''sst-assets-us-east-1''"
    by (simp add: example_env_def normalizeRegion_def)
  show ?thesis
    using bucket_object_key [of example_env "''Fn''" "''fff''" example_zip_path
        example_fs_zipped
        "(initial_state example_fs_zipped [])
           \<lparr>d_zipPath := Some example_zip_path, d_bundleHash := Some ''fff''\<rparr>"
        "Archive example_archive" example_args]
      hash rd pre bucket
    by auto
qed

text \<open>The claim as stated fails: the key has the prefix \<open>assets/\<close>.\<close>

theorem bucket_object_key_counterexample:
  "bo_key (createBucketObject example_env ''Fn'' ''fff'' example_zip_path) =
     ''assets/Fn-code-fff.zip''
   \<and> bo_key (createBucketObject example_env ''Fn'' ''fff'' example_zip_path) \<noteq>
       ''Fn-code-fff.zip''"
  by (simp add: createBucketObject_def)

section \<open>Properties of the deployment\<close>

text \<open>A step whose input is pending does not run.\<close>

lemma hash_needs_zip:
  "d_zipPath s = None \<and> d_bundleHash s = None
     \<Longrightarrow> run_step env name args CalculateHash s \<noteq> Inr s'"
  by simp

lemma publish_needs_hash:
  "d_bundleHash s = None \<and> d_file s = None
     \<Longrightarrow> run_step env name args CreateBucketObject s \<noteq> Inr s'"
  by simp

lemma update_needs_function:
  "d_fnRaw s = None \<and> d_updater s = None
     \<Longrightarrow> run_step env name args UpdateFunctionCode s \<noteq> Inr s'"
  by simp

lemma update_needs_file:
  "d_file s = None \<and> d_updater s = None
     \<Longrightarrow> run_step env name args UpdateFunctionCode s \<noteq> Inr s'"
  by (simp split: option.splits)

text \<open>Only its own step resolves an output.\<close>

lemma keeps_zip_pending:
  "x \<noteq> ZipBundleFolder \<Longrightarrow> x \<noteq> CalculateHash
     \<Longrightarrow> d_zipPath s = None \<and> d_bundleHash s = None
     \<Longrightarrow> run_step env name args x s = Inr s'
     \<Longrightarrow> d_zipPath s' = None \<and> d_bundleHash s' = None"
  by (cases x) (auto simp: Let_def split: option.splits sum.splits prod.splits)

lemma keeps_hash_pending:
  "x \<noteq> CalculateHash \<Longrightarrow> x \<noteq> CreateBucketObject
     \<Longrightarrow> d_bundleHash s = None \<and> d_file s = None
     \<Longrightarrow> run_step env name args x s = Inr s'
     \<Longrightarrow> d_bundleHash s' = None \<and> d_file s' = None"
  by (cases x) (auto simp: Let_def split: option.splits sum.splits prod.splits)

lemma keeps_function_pending:
  "x \<noteq> CreateFunction \<Longrightarrow> x \<noteq> UpdateFunctionCode
     \<Longrightarrow> d_fnRaw s = None \<and> d_updater s = None
     \<Longrightarrow> run_step env name args x s = Inr s'
     \<Longrightarrow> d_fnRaw s' = None \<and> d_updater s' = None"
  by (cases x) (auto simp: Let_def split: option.splits sum.splits prod.splits)

lemma keeps_file_pending:
  "x \<noteq> CreateBucketObject \<Longrightarrow> x \<noteq> UpdateFunctionCode
     \<Longrightarrow> d_file s = None \<and> d_updater s = None
     \<Longrightarrow> run_step env name args x s = Inr s'
     \<Longrightarrow> d_file s' = None \<and> d_updater s' = None"
  by (cases x) (auto simp: Let_def split: option.splits sum.splits prod.splits)

text \<open>If \<open>b\<close> cannot run while \<open>P\<close> holds and only \<open>a\<close> ends \<open>P\<close>, then \<open>a\<close> comes
  before \<open>b\<close> in every schedule that runs from a state where \<open>P\<close> holds.\<close>

lemma run_precedes:
  assumes frame: "\<And>x s s'. x \<noteq> a \<Longrightarrow> x \<noteq> b \<Longrightarrow> P s
                    \<Longrightarrow> run_step env name args x s = Inr s' \<Longrightarrow> P s'"
    and blocked: "\<And>s s'. P s \<Longrightarrow> run_step env name args b s \<noteq> Inr s'"
  shows "P s \<Longrightarrow> run env name args xs s = Inr s' \<Longrightarrow> precedes a b xs"
proof (induction xs arbitrary: s)
  case Nil
  then show ?case by simp
next
  case (Cons x xs)
  show ?case
  proof (cases "x = a")
    case True
    then show ?thesis by simp
  next
    case False
    from Cons.prems(2) obtain s1 where
      step: "run_step env name args x s = Inr s1" and rest: "run env name args xs s1 = Inr s'"
      by (auto split: sum.splits)
    from blocked [OF Cons.prems(1)] step have nb: "x \<noteq> b" by auto
    from frame [OF False nb Cons.prems(1) step] have "P s1" .
    from Cons.IH [OF this rest] False nb show ?thesis by simp
  qed
qed

lemma initial_pending:
  "d_zipPath (initial_state fs store) = None" "d_bundleHash (initial_state fs store) = None"
  "d_file (initial_state fs store) = None" "d_fnRaw (initial_state fs store) = None"
  "d_updater (initial_state fs store) = None"
  by (simp_all add: initial_state_def)

text \<open>In every schedule that runs, the archive is complete before it is hashed,
  and hashed before it is published.\<close>

lemma zip_hash_publish_order:
  assumes "run env name args sched (initial_state fs store) = Inr s"
  shows "precedes ZipBundleFolder CalculateHash sched"
    and "precedes CalculateHash CreateBucketObject sched"
proof -
  show "precedes ZipBundleFolder CalculateHash sched"
    by (rule run_precedes [where P = "\<lambda>s. d_zipPath s = None \<and> d_bundleHash s = None",
          OF keeps_zip_pending hash_needs_zip _ assms])
       (simp_all add: initial_pending)
  show "precedes CalculateHash CreateBucketObject sched"
    by (rule run_precedes [where P = "\<lambda>s. d_bundleHash s = None \<and> d_file s = None",
          OF keeps_hash_pending publish_needs_hash _ assms])
       (simp_all add: initial_pending)
qed

lemma update_after_create:
  assumes "run env name args sched (initial_state fs store) = Inr s"
  shows "precedes CreateFunction UpdateFunctionCode sched"
    and "precedes CreateBucketObject UpdateFunctionCode sched"
proof -
  show "precedes CreateFunction UpdateFunctionCode sched"
    by (rule run_precedes [where P = "\<lambda>s. d_fnRaw s = None \<and> d_updater s = None",
          OF keeps_function_pending update_needs_function _ assms])
       (simp_all add: initial_pending)
  show "precedes CreateBucketObject UpdateFunctionCode sched"
    by (rule run_precedes [where P = "\<lambda>s. d_file s = None \<and> d_updater s = None",
          OF keeps_file_pending update_needs_file _ assms])
       (simp_all add: initial_pending)
qed

text \<open>Consistency is kept by every step, so it holds after every run.\<close>

lemma step_consistent:
  "consistent env name args s \<Longrightarrow> run_step env name args x s = Inr s'
     \<Longrightarrow> consistent env name args s'"
  by (cases x)
     (auto simp: consistent_def Let_def split: option.splits sum.splits prod.splits)

lemma run_consistent:
  "consistent env name args s \<Longrightarrow> run env name args xs s = Inr s'
     \<Longrightarrow> consistent env name args s'"
proof (induction xs arbitrary: s)
  case Nil
  then show ?case by simp
next
  case (Cons x xs)
  from Cons.prems(2) obtain s1 where
    step: "run_step env name args x s = Inr s1" and rest: "run env name args xs s1 = Inr s'"
    by (auto split: sum.splits)
  from Cons.IH [OF step_consistent [OF Cons.prems(1) step] rest] show ?case .
qed

lemma initial_consistent: "consistent env name args (initial_state fs store)"
  by (simp add: consistent_def initial_state_def)

lemma final_file:
  assumes "run env name args sched (initial_state fs store) = Inr s" and "d_file s = Some file"
  shows "\<exists>bundleHash zipPath. d_bundleHash s = Some bundleHash \<and> d_zipPath s = Some zipPath
           \<and> file = createBucketObject env name bundleHash zipPath"
  using run_consistent [OF initial_consistent assms(1)] assms(2)
  by (auto simp: consistent_def split: option.splits)

lemma final_function:
  assumes "run env name args sched (initial_state fs store) = Inr s" and "d_fnRaw s = Some fnRaw"
  shows "\<exists>newHandler roleArn. d_newHandler s = Some newHandler \<and> d_roleArn s = Some roleArn
           \<and> f_args fnRaw = createFunction env args newHandler roleArn"
  using run_consistent [OF initial_consistent assms(1)] assms(2)
  by (auto simp: consistent_def split: option.splits)

lemma final_updater:
  assumes "run env name args sched (initial_state fs store) = Inr s" and "d_updater s = Some u"
  shows "\<exists>fnRaw file. d_fnRaw s = Some fnRaw \<and> d_file s = Some file
           \<and> u = updateFunctionCode env fnRaw file"
  using run_consistent [OF initial_consistent assms(1)] assms(2)
  by (auto simp: consistent_def split: option.splits)

text \<open>The two example schedules, run.\<close>

lemma wrap_first_runs:
  "\<not> isl (run example_env ''Fn'' example_args wrap_first (initial_state example_fs []))"
  by code_simp

lemma wrap_first_file:
  "map_option bo_key
     (d_file (projr (run example_env ''Fn'' example_args wrap_first (initial_state example_fs [])))) =
     Some ''assets/Fn-code-ffff.zip''"
  by code_simp

lemma wrap_first_store:
  "map_of (d_store (projr (run example_env ''Fn'' example_args wrap_first
             (initial_state example_fs []))))
     (''sst-assets-us-east-1'', ''assets/Fn-code-ffff.zip'') =
   Some (Archive (example_archive @
     [ZipEntry ''src/server-index.mjs'' False 0 420
        (Bytes (js_join ''\<newline>''
           (wrapper_lines False [''globalThis.x=1''] None ''handler'' ''index'')))]))"
  by code_simp

lemma wrap_first_function:
  "map_option (l_code \<circ> f_args)
     (d_fnRaw (projr (run example_env ''Fn'' example_args wrap_first (initial_state example_fs [])))) =
     Some placeholder_code"
  by code_simp

lemma wrap_first_updater:
  "d_updater (projr (run example_env ''Fn'' example_args wrap_first (initial_state example_fs []))) =
     Some \<lparr>u_functionName = ''FnFunction-abc'', u_s3Bucket = ''sst-assets-us-east-1'',
           u_s3Key = ''assets/Fn-code-ffff.zip'',
           u_functionLastModified = ''2023-11-14T22:13:20.000+0000'',
           u_region = ''us-east-1''\<rparr>"
  by code_simp

lemma zip_first_runs:
  "\<not> isl (run example_env ''Fn'' example_args_bound zip_first (initial_state example_fs []))"
  by code_simp

lemma zip_first_handler:
  "map_option (l_handler \<circ> f_args)
     (d_fnRaw (projr (run example_env ''Fn'' example_args_bound zip_first
                (initial_state example_fs [])))) =
     Some ''src/server-index.handler''"
  by code_simp

lemma zip_first_store:
  "map_of (d_store (projr (run example_env ''Fn'' example_args_bound zip_first
             (initial_state example_fs []))))
     (''sst-assets-us-east-1'', ''assets/Fn-code-fff.zip'') = Some (Archive example_archive)"
  by code_simp

lemma zip_first_updater:
  "map_option u_s3Key
     (d_updater (projr (run example_env ''Fn'' example_args_bound zip_first
                  (initial_state example_fs [])))) =
     Some ''assets/Fn-code-fff.zip''"
  by code_simp

lemma zip_first_wrapper_on_disk:
  \<open>map_option (\<lambda>nd. case nd of File st c \<Rightarrow> c | Dir st \<Rightarrow> Bytes [])
     (map_of (d_fs (projr (run example_env ''Fn'' example_args_bound zip_first
                (initial_state example_fs []))))
        ''/out/src/server-index.mjs'') =
   Some (Bytes ''globalThis.bucket={"name":"my-bucket"};\<newline>export const handler = async (event, context) => {\<newline>globalThis.x=1\<newline>  const { handler: rawHandler} = await import("./index.mjs");\<newline>  return rawHandler(event, context);\<newline>};'')\<close>
  by code_simp

text \<open>
  Claim C9. The bucket object is registered with \<open>retainOnDelete\<close>: destroying it
  leaves the blob store as it is. This holds of the object \<open>createBucketObject\<close>
  builds from any name, digest and path, and of the object in the state after any
  schedule that runs.
\<close>

theorem bucket_object_retained:
  "opt_retainOnDelete (bo_opts (createBucketObject env name bundleHash zipPath))
   \<and> destroy_bucket_object (createBucketObject env name bundleHash zipPath) store = store
   \<and> (run env name args sched (initial_state fs store0) = Inr s \<and> d_file s = Some file
        \<longrightarrow> opt_retainOnDelete (bo_opts file)
            \<and> destroy_bucket_object file (d_store s) = d_store s)"
proof -
  have made: "opt_retainOnDelete (bo_opts (createBucketObject env name h z))" for h z
    by (simp add: createBucketObject_def)
  have "opt_retainOnDelete (bo_opts file)"
    if "run env name args sched (initial_state fs store0) = Inr s" and "d_file s = Some file"
    using final_file [OF that] made by auto
  then show ?thesis
    using made by (auto simp: destroy_bucket_object_def)
qed

theorem bucket_object_retained_witness:
  "\<exists>s file. run example_env ''Fn'' example_args wrap_first (initial_state example_fs []) = Inr s
      \<and> d_file s = Some file
      \<and> bo_key file = ''assets/Fn-code-ffff.zip''
      \<and> opt_retainOnDelete (bo_opts file)
      \<and> destroy_bucket_object file (d_store s) = d_store s
      \<and> map_of (d_store s) (''sst-assets-us-east-1'', ''assets/Fn-code-ffff.zip'') \<noteq> None"
proof -
  from wrap_first_runs obtain s where
    s: "run example_env ''Fn'' example_args wrap_first (initial_state example_fs []) = Inr s"
    by (cases "run example_env ''Fn'' example_args wrap_first (initial_state example_fs [])") auto
  from wrap_first_file s obtain obj where
    obj: "d_file s = Some obj" and key: "bo_key obj = ''assets/Fn-code-ffff.zip''"
    by auto
  from wrap_first_store s
  have stored: "map_of (d_store s) (''sst-assets-us-east-1'', ''assets/Fn-code-ffff.zip'') \<noteq> None"
    by simp
  from bucket_object_retained
    [of example_env "''Fn''" "''ffff''" example_zip_path "[]" example_args wrap_first
       example_fs "[]" s obj] s obj
  have "opt_retainOnDelete (bo_opts obj) \<and> destroy_bucket_object obj (d_store s) = d_store s"
    by blast
  with s obj key stored show ?thesis by blast
qed

text \<open>
  Claim C8, as amended. When \<open>args.nodes.function\<close> has no \<open>code\<close> key, the
  function is created with the inline placeholder body, and its role is the
  created role's ARN whatever the arguments; when \<open>args.nodes.function\<close> is
  absent, the other arguments are the normalised ones. After any schedule that
  runs, the function in the state has the placeholder body, the code updater
  was issued after the function and the bucket object were created, and it
  holds the function's name and last-modified marker and the bucket object's
  bucket and key.
\<close>

theorem placeholder_then_update:
  assumes "no_code_override args"
  shows "l_code (createFunction env args newHandler roleArn) = placeholder_code
         \<and> l_role (createFunction env args newHandler roleArn) = roleArn
         \<and> (a_nodes_function args = None \<longrightarrow>
              createFunction env args newHandler roleArn =
                \<lparr>l_description = a_description args,
                 l_code = AssetArchive [(''index'', StringAsset ''exports.handler = () => {}'')],
                 l_handler = newHandler,
                 l_role = roleArn,
                 l_runtime = normalizeRuntime args,
                 l_timeout = e_toSeconds env (normalizeTimeout args),
                 l_memorySize = e_toMBs env (normalizeMemory args),
                 l_environment = normalizeEnvironment args,
                 l_architectures = normalizeArchitectures args\<rparr>)
         \<and> (run env name args sched (initial_state fs store) = Inr s \<longrightarrow>
              precedes CreateFunction UpdateFunctionCode sched
              \<and> precedes CreateBucketObject UpdateFunctionCode sched
              \<and> (\<forall>fnRaw. d_fnRaw s = Some fnRaw \<longrightarrow> l_code (f_args fnRaw) = placeholder_code)
              \<and> (\<forall>u. d_updater s = Some u \<longrightarrow>
                    (\<exists>fnRaw file. d_fnRaw s = Some fnRaw \<and> d_file s = Some file
                       \<and> u_functionName u = f_name fnRaw
                       \<and> u_functionLastModified u = f_lastModified fnRaw
                       \<and> u_s3Bucket u = bo_bucket file
                       \<and> u_s3Key u = bo_key file)))"
proof -
  have code: "l_code (createFunction env args h r) = placeholder_code" for h r
    using assms
    by (auto simp: createFunction_def apply_overrides_def no_code_override_def spread_def
        split: option.splits)
  have role: "l_role (createFunction env args newHandler roleArn) = roleArn"
    by (simp add: createFunction_def apply_overrides_def split: option.splits)
  have plain: "createFunction env args newHandler roleArn =
                \<lparr>l_description = a_description args,
                 l_code = AssetArchive [(''index'', StringAsset ''exports.handler = () => {}'')],
                 l_handler = newHandler,
                 l_role = roleArn,
                 l_runtime = normalizeRuntime args,
                 l_timeout = e_toSeconds env (normalizeTimeout args),
                 l_memorySize = e_toMBs env (normalizeMemory args),
                 l_environment = normalizeEnvironment args,
                 l_architectures = normalizeArchitectures args\<rparr>"
    if "a_nodes_function args = None"
    using that by (simp add: createFunction_def apply_overrides_def placeholder_code_def)
  have after: "precedes CreateFunction UpdateFunctionCode sched
              \<and> precedes CreateBucketObject UpdateFunctionCode sched
              \<and> (\<forall>fnRaw. d_fnRaw s = Some fnRaw \<longrightarrow> l_code (f_args fnRaw) = placeholder_code)
              \<and> (\<forall>u. d_updater s = Some u \<longrightarrow>
                    (\<exists>fnRaw file. d_fnRaw s = Some fnRaw \<and> d_file s = Some file
                       \<and> u_functionName u = f_name fnRaw
                       \<and> u_functionLastModified u = f_lastModified fnRaw
                       \<and> u_s3Bucket u = bo_bucket file
                       \<and> u_s3Key u = bo_key file))"
    if ok: "run env name args sched (initial_state fs store) = Inr s"
  proof -
    have "l_code (f_args fnRaw) = placeholder_code" if "d_fnRaw s = Some fnRaw" for fnRaw
      using final_function [OF ok that] code by auto
    moreover have "\<exists>fnRaw file. d_fnRaw s = Some fnRaw \<and> d_file s = Some file
                       \<and> u_functionName u = f_name fnRaw
                       \<and> u_functionLastModified u = f_lastModified fnRaw
                       \<and> u_s3Bucket u = bo_bucket file
                       \<and> u_s3Key u = bo_key file" if "d_updater s = Some u" for u
      using final_updater [OF ok that] by (auto simp: updateFunctionCode_def)
    ultimately show ?thesis
      using update_after_create [OF ok] by blast
  qed
  show ?thesis
    using code role plain after by blast
qed

theorem placeholder_then_update_witness:
  "no_code_override example_args
   \<and> createFunction example_env example_args ''src/server-index.handler''
        ''arn:aws:iam::000000000000:role/FnRole'' =
       \<lparr>l_description = None,
        l_code = AssetArchive [(''index'', StringAsset ''exports.handler = () => {}'')],
        l_handler = ''src/server-index.handler'',
        l_role = ''arn:aws:iam::000000000000:role/FnRole'',
        l_runtime = ''nodejs18.x'', l_timeout = 20, l_memorySize = 1024,
        l_environment = [], l_architectures = [''x86_64'']\<rparr>
   \<and> precedes CreateFunction UpdateFunctionCode wrap_first
   \<and> precedes CreateBucketObject UpdateFunctionCode wrap_first
   \<and> (\<exists>s fnRaw file u.
         run example_env ''Fn'' example_args wrap_first (initial_state example_fs []) = Inr s
         \<and> d_fnRaw s = Some fnRaw \<and> d_file s = Some file \<and> d_updater s = Some u
         \<and> l_code (f_args fnRaw) = placeholder_code
         \<and> u_functionName u = f_name fnRaw
         \<and> u_functionLastModified u = f_lastModified fnRaw
         \<and> u_s3Bucket u = bo_bucket file
         \<and> u_s3Key u = bo_key file
         \<and> u_s3Key u = ''assets/Fn-code-ffff.zip'')"
proof -
  have nov: "no_code_override example_args"
    by (simp add: no_code_override_def example_args_def)
  have none: "a_nodes_function example_args = None"
    by (simp add: example_args_def)
  from wrap_first_runs obtain s where
    s: "run example_env ''Fn'' example_args wrap_first (initial_state example_fs []) = Inr s"
    by (cases "run example_env ''Fn'' example_args wrap_first (initial_state example_fs [])") auto
  from wrap_first_function s obtain fnRaw where fn: "d_fnRaw s = Some fnRaw" by auto
  from wrap_first_updater s obtain u where
    u: "d_updater s = Some u" and key: "u_s3Key u = ''assets/Fn-code-ffff.zip''"
    by auto
  note inst = placeholder_then_update
    [OF nov, of example_env "''src/server-index.handler''"
       "''arn:aws:iam::000000000000:role/FnRole''" "''Fn''" wrap_first example_fs "[]" s]
  have args: "createFunction example_env example_args ''src/server-index.handler''
        ''arn:aws:iam::000000000000:role/FnRole'' =
       \<lparr>l_description = None,
        l_code = AssetArchive [(''index'', StringAsset ''exports.handler = () => {}'')],
        l_handler = ''src/server-index.handler'',
        l_role = ''arn:aws:iam::000000000000:role/FnRole'',
        l_runtime = ''nodejs18.x'', l_timeout = 20, l_memorySize = 1024,
        l_environment = [], l_architectures = [''x86_64'']\<rparr>"
    using inst none
    by (simp add: example_args_def example_env_def normalizeRuntime_def normalizeTimeout_def
        normalizeMemory_def normalizeEnvironment_def normalizeArchitectures_def)
  from inst s have ord: "precedes CreateFunction UpdateFunctionCode wrap_first
      \<and> precedes CreateBucketObject UpdateFunctionCode wrap_first" by blast
  from inst s fn have code: "l_code (f_args fnRaw) = placeholder_code" by blast
  from inst s u fn obtain obj where
    "d_file s = Some obj" "u_functionName u = f_name fnRaw"
    "u_functionLastModified u = f_lastModified fnRaw" "u_s3Bucket u = bo_bucket obj"
    "u_s3Key u = bo_key obj"
    by auto
  with nov args ord s fn u key code show ?thesis by blast
qed

text \<open>The claim as stated fails: a \<open>code\<close> in \<open>args.nodes.function\<close> replaces the
  placeholder, here by the archive file itself.\<close>

theorem placeholder_override_counterexample:
  "l_code (createFunction example_env example_args_code_override ''src/server-index.handler''
             ''arn:aws:iam::000000000000:role/FnRole'') =
     FileArchive ''/work/.sst/artifacts/Fn/code.zip''
   \<and> l_code (createFunction example_env example_args_code_override ''src/server-index.handler''
             ''arn:aws:iam::000000000000:role/FnRole'') \<noteq> placeholder_code"
  by (simp add: createFunction_def apply_overrides_def spread_def
      example_args_code_override_def example_args_def placeholder_code_def)

text \<open>
  Claim C7. The bound example function, run under the schedule \<open>zip_first\<close>: every
  step finds its inputs resolved, the function is created with the handler
  \<open>src/server-index.handler\<close>, and the archive published and handed to the code
  updater has no entry \<open>src/server-index.mjs\<close>, because the directory was archived
  before the wrapper was written. Under \<open>wrap_first\<close> the published archive has
  the entry.
\<close>

theorem zip_before_wrap:
  "\<exists>s fnRaw. run example_env ''Fn'' example_args_bound zip_first (initial_state example_fs []) = Inr s
     \<and> \<not> precedes WrapHandler ZipBundleFolder zip_first
     \<and> d_fnRaw s = Some fnRaw
     \<and> l_handler (f_args fnRaw) = ''src/server-index.handler''
     \<and> map_of (d_store s) (''sst-assets-us-east-1'', ''assets/Fn-code-fff.zip'') =
         Some (Archive example_archive)
     \<and> map_option u_s3Key (d_updater s) = Some ''assets/Fn-code-fff.zip''
     \<and> ''src/server-index.mjs'' \<notin> set (map e_name example_archive)
     \<and> map_of (d_fs s) ''/out/src/server-index.mjs'' \<noteq> None
     \<and> (\<exists>s' es. run example_env ''Fn'' example_args wrap_first (initial_state example_fs []) = Inr s'
           \<and> map_of (d_store s') (''sst-assets-us-east-1'', ''assets/Fn-code-ffff.zip'') =
               Some (Archive es)
           \<and> ''src/server-index.mjs'' \<in> set (map e_name es))"
proof -
  from zip_first_runs obtain s where
    s: "run example_env ''Fn'' example_args_bound zip_first (initial_state example_fs []) = Inr s"
    by (cases "run example_env ''Fn'' example_args_bound zip_first (initial_state example_fs [])")
       auto
  from zip_first_handler s obtain fnRaw where
    fn: "d_fnRaw s = Some fnRaw" "l_handler (f_args fnRaw) = ''src/server-index.handler''"
    by auto
  from zip_first_store s
  have store: "map_of (d_store s) (''sst-assets-us-east-1'', ''assets/Fn-code-fff.zip'') =
         Some (Archive example_archive)" by simp
  from zip_first_updater s
  have upd: "map_option u_s3Key (d_updater s) = Some ''assets/Fn-code-fff.zip''" by simp
  from zip_first_wrapper_on_disk s
  have disk: "map_of (d_fs s) ''/out/src/server-index.mjs'' \<noteq> None" by auto
  have absent: "''src/server-index.mjs'' \<notin> set (map e_name example_archive)"
    by (simp add: example_archive_def)
  have order: "\<not> precedes WrapHandler ZipBundleFolder zip_first"
    by (simp add: zip_first_def)
  from wrap_first_runs obtain s' where
    s': "run example_env ''Fn'' example_args wrap_first (initial_state example_fs []) = Inr s'"
    by (cases "run example_env ''Fn'' example_args wrap_first (initial_state example_fs [])") auto
  from wrap_first_store s'
  have "\<exists>es. map_of (d_store s') (''sst-assets-us-east-1'', ''assets/Fn-code-ffff.zip'') =
               Some (Archive es)
           \<and> ''src/server-index.mjs'' \<in> set (map e_name es)"
    by simp
  with s' have good: "\<exists>s' es.
      run example_env ''Fn'' example_args wrap_first (initial_state example_fs []) = Inr s'
      \<and> map_of (d_store s') (''sst-assets-us-east-1'', ''assets/Fn-code-ffff.zip'') =
          Some (Archive es)
      \<and> ''src/server-index.mjs'' \<in> set (map e_name es)"
    by blast
  from s fn store upd disk absent order good show ?thesis by blast
qed

end
